theory Spec2Isabelle
  imports Main
begin

section \<open>Hermes: the queue-triggered mail dispatcher of main.go\<close>

text \<open>
  The development follows \<^verbatim>\<open>src/main.go\<close>: the request type \<open>mailMessage\<close>, the helper
  \<open>exitErrorf\<close>, the assembly function \<open>buildMailContent\<close> and the handler
  \<open>HandleRequest\<close>. The packages that main.go calls (encoding/json, html/template,
  text/template, gomail, env, the storage connector) are not part of the file; each call
  into them is a field of the record \<open>world\<close>, so that every statement about the handler
  holds for whatever these packages answer.
\<close>

subsection \<open>Values\<close>

text \<open>A decoded JSON value, as encoding/json hands it to an \<^verbatim>\<open>interface{}\<close>. A number is
  kept as its literal: nothing in main.go computes with it.\<close>

datatype json =
    JNull
  | JBool bool
  | JNumber string
  | JString string
  | JArray "json list"
  | JObject "(string \<times> json) list"

datatype error =
    ErrorString string
  | UnmarshalTypeError string string

type_synonym bindings = "string \<rightharpoonup> json"

record config =
  Bucket :: string
  SMTPHost :: string
  SMTPPort :: int
  SMTPUserName :: string
  SMTPPassword :: string

record mailMessage =
  FromName :: string
  FromAddress :: string
  ToAddress :: string
  ReplyToAddress :: string
  Template :: string
  Subject :: string
  CC :: "string list"
  BCC :: "string list"
  TemplateContext :: bindings

record SQSMessage =
  Body :: string

record Dialer =
  Host :: string
  Port :: int
  Username :: string
  Password :: string

text \<open>A gomail message, as far as main.go fills it: the values stored under each header
  field and the body parts (content type, content) in the order they were added.\<close>

record Message =
  header :: "string \<rightharpoonup> string list"
  parts :: "(string \<times> string) list"

datatype kind = HTML | TXT

subsection \<open>What a run does and how it ends\<close>

datatype arg = ErrArg error | StrArg string

text \<open>Every call that leaves main.go is recorded with the index of the record being
  processed; a write of \<open>exitErrorf\<close> to standard error is recorded with its format
  string and arguments.\<close>

datatype event =
    CallUnmarshal nat string
  | CallGetTemplateContent nat string
  | CallParse nat kind
  | CallExecute nat kind
  | CallDialAndSend nat Message
  | WriteStderr string "arg list"

text \<open>\<open>Returned r\<close> is a normal return of the handler with error value \<open>r\<close> (\<open>None\<close> is
  Go's \<open>nil\<close>); \<open>Exited n\<close> is \<open>os.Exit(n)\<close>; \<open>Panicked\<close> is a run-time panic (a nil
  pointer dereference); \<open>StorageFailed\<close> is a template fetch that does not come back.\<close>

datatype outcome =
    Returned "error option"
  | Exited nat
  | Panicked
  | StorageFailed

type_synonym 'a step = "event list \<times> (outcome + 'a)"

definition ret :: "'a \<Rightarrow> 'a step" where
  "ret a = ([], Inr a)"

definition call :: "event \<Rightarrow> (outcome + 'a) \<Rightarrow> 'a step" where
  "call e r = ([e], r)"

definition andThen :: "'a step \<Rightarrow> ('a \<Rightarrow> 'b step) \<Rightarrow> 'b step" where
  "andThen s f =
     (case s of
        (es, Inl out) \<Rightarrow> (es, Inl out)
      | (es, Inr a) \<Rightarrow> (case f a of (es', r) \<Rightarrow> (es @ es', r)))"

subsection \<open>The packages main.go calls\<close>

text \<open>
  \<^item> \<open>env_Parse\<close>: \<^verbatim>\<open>env.Parse(&cfg)\<close>, the configuration or an error.
  \<^item> \<open>json_parse\<close>: the syntax check and scan of encoding/json on a record body.
  \<^item> \<open>equalFold\<close>: the case-insensitive match of encoding/json between a field name and a
    member name, tried when no field has exactly the member's name.
  \<^item> \<open>hParse\<close>, \<open>hExecute\<close>: html/template; \<open>tParse\<close>, \<open>tExecute\<close>: text/template.
    Go's \<^verbatim>\<open>Parse\<close> returns \<^verbatim>\<open>(nil, err)\<close> on a syntax error, here \<open>Inl err\<close>.
  \<^item> \<open>FormatAddress\<close>: gomail's \<^verbatim>\<open>Message.FormatAddress(address, name)\<close>.
  \<^item> \<open>encodeHeader\<close>: the header encoder of a gomail message. \<^verbatim>\<open>SetHeader\<close> passes each
    value through it before storing it (an RFC 2047 encoded word replaces a value that
    has a byte outside printable ASCII).
  \<^item> \<open>DialAndSend\<close>: gomail's \<^verbatim>\<open>Dialer.DialAndSend\<close>, \<open>None\<close> for success. The answer may
    differ from one record to the next, so it takes the record's index.
\<close>

record ('h, 't) world =
  env_Parse :: "error + config"
  json_parse :: "string \<Rightarrow> error + json"
  equalFold :: "string \<Rightarrow> string \<Rightarrow> bool"
  GetTemplateContent :: "string \<Rightarrow> nat \<Rightarrow> string \<Rightarrow> string option"
  hParse :: "string \<Rightarrow> error + 'h"
  hExecute :: "'h \<Rightarrow> bindings \<Rightarrow> error + string"
  tParse :: "string \<Rightarrow> error + 't"
  tExecute :: "'t \<Rightarrow> bindings \<Rightarrow> error + string"
  FormatAddress :: "string \<Rightarrow> string \<Rightarrow> string"
  encodeHeader :: "string \<Rightarrow> string"
  DialAndSend :: "Dialer \<Rightarrow> nat \<Rightarrow> Message \<Rightarrow> error option"

text \<open>
  Modelled from the spec: the storage connector (package \<^verbatim>\<open>storageconnector\<close> of this
  repository, not among the sources). Section 6 of the specification gives
  \<^verbatim>\<open>get_template_content(logical_name) -> string\<close>, which "always return[s] content or
  fail[s] the whole record". \<open>GetTemplateContent w bucket i name\<close> is \<open>Some content\<close>, or
  \<open>None\<close> when the fetch made for record \<open>i\<close> fails; since the Go method returns a
  string only, a failing fetch does not return to main.go.
\<close>

definition fetch :: "('h, 't) world \<Rightarrow> string \<Rightarrow> nat \<Rightarrow> string \<Rightarrow> string step" where
  "fetch w bucket i name =
     call (CallGetTemplateContent i name)
       (case GetTemplateContent w bucket i name of
          None \<Rightarrow> Inl StorageFailed
        | Some content \<Rightarrow> Inr content)"

subsection \<open>Decoding a record body into a mailMessage\<close>

text \<open>The zero value of \<^verbatim>\<open>var mailMsg mailMessage\<close>.\<close>

definition zero_mailMessage :: mailMessage where
  "zero_mailMessage =
     \<lparr>FromName = [], FromAddress = [], ToAddress = [], ReplyToAddress = [],
      Template = [], Subject = [], CC = [], BCC = [], TemplateContext = Map.empty\<rparr>"

datatype field =
    F_FromName | F_FromAddress | F_ToAddress | F_ReplyToAddress | F_Template
  | F_Subject | F_CC | F_BCC | F_TemplateContext

text \<open>The \<^verbatim>\<open>json:"..."\<close> tags of the struct, in declaration order.\<close>

fun json_name :: "field \<Rightarrow> string" where
  "json_name F_FromName = ''from_name''"
| "json_name F_FromAddress = ''from_address''"
| "json_name F_ToAddress = ''to_address''"
| "json_name F_ReplyToAddress = ''reply_to''"
| "json_name F_Template = ''template_name''"
| "json_name F_Subject = ''subject''"
| "json_name F_CC = ''cc''"
| "json_name F_BCC = ''bcc''"
| "json_name F_TemplateContext = ''template_context''"

definition structFields :: "field list" where
  "structFields =
     [F_FromName, F_FromAddress, F_ToAddress, F_ReplyToAddress, F_Template,
      F_Subject, F_CC, F_BCC, F_TemplateContext]"

text \<open>encoding/json takes the field whose name is the member's name, and otherwise the
  first field that matches it without regard to case; a member that matches no field is
  skipped.\<close>

definition find_field :: "(string \<Rightarrow> string \<Rightarrow> bool) \<Rightarrow> string \<Rightarrow> field option" where
  "find_field eqf k =
     (case find (\<lambda>f. json_name f = k) structFields of
        Some f \<Rightarrow> Some f
      | None \<Rightarrow> find (\<lambda>f. eqf (json_name f) k) structFields)"

fun json_kind :: "json \<Rightarrow> string" where
  "json_kind JNull = ''null''"
| "json_kind (JBool b) = ''bool''"
| "json_kind (JNumber n) = ''number''"
| "json_kind (JString s) = ''string''"
| "json_kind (JArray vs) = ''array''"
| "json_kind (JObject kvs) = ''object''"

text \<open>A JSON string is stored, \<open>null\<close> leaves a string as it is, anything else is an
  \<open>UnmarshalTypeError\<close>.\<close>

fun string_value :: "string \<Rightarrow> string \<Rightarrow> json \<Rightarrow> error + string" where
  "string_value fname cur (JString s) = Inr s"
| "string_value fname cur JNull = Inr cur"
| "string_value fname cur v = Inl (UnmarshalTypeError (json_kind v) fname)"

text \<open>A decimal numeral, for the index in the path of a type error.\<close>

definition digit :: "nat \<Rightarrow> char" where
  "digit n = ''0123456789'' ! (n mod 10)"

function decimal :: "nat \<Rightarrow> string" where
  "decimal n = (if n < 10 then [digit n] else decimal (n div 10) @ [digit n])"
  by pat_completeness auto
termination
  by (relation "measure id") auto

declare decimal.simps [simp del]

text \<open>
  A \<^verbatim>\<open>[]string\<close> field is a slice over a backing array. encoding/json decodes the
  element at index \<open>i\<close> of a JSON array into the slot \<open>i\<close> of the array that is already
  there, and into an empty string past its end; \<open>null\<close> leaves the slot as it is, so that
  after a repeated member an element may keep what an earlier array put there. \<open>old\<close>
  holds the slots from index \<open>i\<close> on. A type error names the element by its index.
\<close>

fun string_elems :: "string \<Rightarrow> nat \<Rightarrow> string list \<Rightarrow> json list \<Rightarrow> error + string list" where
  "string_elems fname i old [] = Inr []"
| "string_elems fname i old (v # vs) =
     (case string_value (fname @ ''.'' @ decimal i) (case old of [] \<Rightarrow> [] | slot # _ \<Rightarrow> slot) v of
        Inl e \<Rightarrow> Inl e
      | Inr s \<Rightarrow>
          (case string_elems fname (Suc i) (tl old) vs of
             Inl e \<Rightarrow> Inl e
           | Inr ss \<Rightarrow> Inr (s # ss)))"

text \<open>The result is the new slice and the new backing array: the decoded elements
  followed by the slots the array did not reach. The empty array gives a fresh empty
  slice, and \<open>null\<close> the nil slice.\<close>

fun strings_value ::
    "string \<Rightarrow> string list \<Rightarrow> json \<Rightarrow> error + string list \<times> string list" where
  "strings_value fname backing (JArray vs) =
     (case string_elems fname 0 backing vs of
        Inl e \<Rightarrow> Inl e
      | Inr ss \<Rightarrow> Inr (ss, if vs = [] then [] else ss @ drop (length ss) backing))"
| "strings_value fname backing JNull = Inr ([], [])"
| "strings_value fname backing v = Inl (UnmarshalTypeError (json_kind v) fname)"

text \<open>An object is stored into the map that is already there (a later member of the
  same name wins); \<open>null\<close> resets the map.\<close>

fun map_value :: "string \<Rightarrow> bindings \<Rightarrow> json \<Rightarrow> error + bindings" where
  "map_value fname cur (JObject kvs) = Inr (cur ++ map_of (rev kvs))"
| "map_value fname cur JNull = Inr Map.empty"
| "map_value fname cur v = Inl (UnmarshalTypeError (json_kind v) fname)"

text \<open>The state of a decoding: the request filled so far, and the backing arrays of its
  \<open>cc\<close> and \<open>bcc\<close> slices.\<close>

record decoding =
  request :: mailMessage
  ccBacking :: "string list"
  bccBacking :: "string list"

definition store :: "('a \<Rightarrow> decoding) \<Rightarrow> error + 'a \<Rightarrow> error + decoding" where
  "store upd r = (case r of Inl e \<Rightarrow> Inl e | Inr a \<Rightarrow> Inr (upd a))"

fun assign :: "field \<Rightarrow> json \<Rightarrow> decoding \<Rightarrow> error + decoding" where
  "assign F_FromName v d =
     store (\<lambda>s. d\<lparr>request := (request d)\<lparr>FromName := s\<rparr>\<rparr>)
       (string_value ''from_name'' (FromName (request d)) v)"
| "assign F_FromAddress v d =
     store (\<lambda>s. d\<lparr>request := (request d)\<lparr>FromAddress := s\<rparr>\<rparr>)
       (string_value ''from_address'' (FromAddress (request d)) v)"
| "assign F_ToAddress v d =
     store (\<lambda>s. d\<lparr>request := (request d)\<lparr>ToAddress := s\<rparr>\<rparr>)
       (string_value ''to_address'' (ToAddress (request d)) v)"
| "assign F_ReplyToAddress v d =
     store (\<lambda>s. d\<lparr>request := (request d)\<lparr>ReplyToAddress := s\<rparr>\<rparr>)
       (string_value ''reply_to'' (ReplyToAddress (request d)) v)"
| "assign F_Template v d =
     store (\<lambda>s. d\<lparr>request := (request d)\<lparr>Template := s\<rparr>\<rparr>)
       (string_value ''template_name'' (Template (request d)) v)"
| "assign F_Subject v d =
     store (\<lambda>s. d\<lparr>request := (request d)\<lparr>Subject := s\<rparr>\<rparr>)
       (string_value ''subject'' (Subject (request d)) v)"
| "assign F_CC v d =
     store (\<lambda>(ss, backing). d\<lparr>request := (request d)\<lparr>CC := ss\<rparr>, ccBacking := backing\<rparr>)
       (strings_value ''cc'' (ccBacking d) v)"
| "assign F_BCC v d =
     store (\<lambda>(ss, backing). d\<lparr>request := (request d)\<lparr>BCC := ss\<rparr>, bccBacking := backing\<rparr>)
       (strings_value ''bcc'' (bccBacking d) v)"
| "assign F_TemplateContext v d =
     store (\<lambda>c. d\<lparr>request := (request d)\<lparr>TemplateContext := c\<rparr>\<rparr>)
       (map_value ''template_context'' (TemplateContext (request d)) v)"

text \<open>The members of the object are taken in order. encoding/json keeps the first type
  error and reports it at the end; main.go never looks at the request when an error is
  reported, so the model stops at the first one.\<close>

fun members :: "(string \<Rightarrow> string \<Rightarrow> bool) \<Rightarrow> (string \<times> json) list \<Rightarrow> decoding
    \<Rightarrow> error + decoding" where
  "members eqf [] d = Inr d"
| "members eqf ((k, v) # kvs) d =
     (case find_field eqf k of
        None \<Rightarrow> members eqf kvs d
      | Some f \<Rightarrow> (case assign f v d of Inl e \<Rightarrow> Inl e | Inr d' \<Rightarrow> members eqf kvs d'))"

text \<open>\<^verbatim>\<open>json.Unmarshal([]byte(body), &mailMsg)\<close> on a fresh \<open>mailMsg\<close>: a body that is not
  JSON is a syntax error; \<open>null\<close> changes nothing; an object fills the fields; any other
  value is a type error.\<close>

definition fresh :: decoding where
  "fresh = \<lparr>request = zero_mailMessage, ccBacking = [], bccBacking = []\<rparr>"

definition Unmarshal :: "('h, 't) world \<Rightarrow> string \<Rightarrow> error + mailMessage" where
  "Unmarshal w body =
     (case json_parse w body of
        Inl e \<Rightarrow> Inl e
      | Inr JNull \<Rightarrow> Inr zero_mailMessage
      | Inr (JObject kvs) \<Rightarrow>
          (case members (equalFold w) kvs fresh of
             Inl e \<Rightarrow> Inl e
           | Inr d \<Rightarrow> Inr (request d))
      | Inr v \<Rightarrow> Inl (UnmarshalTypeError (json_kind v) ''mailMessage''))"

subsection \<open>exitErrorf\<close>

definition newline :: string where
  "newline = [CHR 0x0A]"

text \<open>\<^verbatim>\<open>fmt.Fprintf(os.Stderr, msg+"\n", args...)\<close>, then \<^verbatim>\<open>os.Exit(1)\<close>: the function never
  returns to its caller.\<close>

definition exitErrorf :: "string \<Rightarrow> arg list \<Rightarrow> 'a step" where
  "exitErrorf msg args = call (WriteStderr (msg @ newline) args) (Inl (Exited 1))"

subsection \<open>buildMailContent\<close>

definition NewMessage :: Message where
  "NewMessage = \<lparr>header = Map.empty, parts = []\<rparr>"

definition SetBody :: "string \<Rightarrow> string \<Rightarrow> Message \<Rightarrow> Message" where
  "SetBody contentType body m = m\<lparr>parts := [(contentType, body)]\<rparr>"

definition AddAlternative :: "string \<Rightarrow> string \<Rightarrow> Message \<Rightarrow> Message" where
  "AddAlternative contentType body m = m\<lparr>parts := parts m @ [(contentType, body)]\<rparr>"

text \<open>\<^verbatim>\<open>SetHeader\<close> encodes each value with the message's header encoder and stores the
  encoded values; \<^verbatim>\<open>SetAddressHeader\<close> stores the formatted address as it is.\<close>

definition SetHeader ::
    "('h, 't) world \<Rightarrow> string \<Rightarrow> string list \<Rightarrow> Message \<Rightarrow> Message" where
  "SetHeader w fld vals m = m\<lparr>header := (header m)(fld \<mapsto> map (encodeHeader w) vals)\<rparr>"

definition SetAddressHeader ::
    "('h, 't) world \<Rightarrow> string \<Rightarrow> string \<Rightarrow> string \<Rightarrow> Message \<Rightarrow> Message" where
  "SetAddressHeader w fld address name m =
     m\<lparr>header := (header m)(fld \<mapsto> [FormatAddress w address name])\<rparr>"

text \<open>The two loops of lines 61 to 69: a slice of the input's length is made, and the
  element at each index is overwritten with the formatted address.\<close>

definition formatAll :: "('h, 't) world \<Rightarrow> string list \<Rightarrow> string list" where
  "formatAll w recipients =
     fold (\<lambda>i addresses. addresses[i := FormatAddress w (recipients ! i) []])
       [0 ..< length recipients] (replicate (length recipients) [])"

text \<open>\<^verbatim>\<open>tmpl.Execute(&buffer, mailMsg.TemplateContext)\<close> with the error check that follows it.
  The template is \<open>None\<close> when \<^verbatim>\<open>Parse\<close> returned nil: calling \<^verbatim>\<open>Execute\<close> on a nil
  template dereferences it and panics.\<close>

definition executeHTML :: "('h, 't) world \<Rightarrow> nat \<Rightarrow> 'h option \<Rightarrow> bindings \<Rightarrow> string step" where
  "executeHTML w i htmlTmpl ctx =
     (case htmlTmpl of
        None \<Rightarrow> call (CallExecute i HTML) (Inl Panicked)
      | Some t \<Rightarrow>
          (case hExecute w t ctx of
             Inl err \<Rightarrow>
               andThen (call (CallExecute i HTML) (Inr ()))
                 (\<lambda>_. exitErrorf (''Unable to execute HTML template: %+v'' @ newline) [ErrArg err])
           | Inr out \<Rightarrow> call (CallExecute i HTML) (Inr out)))"

definition executeTXT :: "('h, 't) world \<Rightarrow> nat \<Rightarrow> 't option \<Rightarrow> bindings \<Rightarrow> string step" where
  "executeTXT w i txtTmpl ctx =
     (case txtTmpl of
        None \<Rightarrow> call (CallExecute i TXT) (Inl Panicked)
      | Some t \<Rightarrow>
          (case tExecute w t ctx of
             Inl err \<Rightarrow>
               andThen (call (CallExecute i TXT) (Inr ()))
                 (\<lambda>_. exitErrorf (''Unable to execute TXT template: %+v'' @ newline) [ErrArg err])
           | Inr out \<Rightarrow> call (CallExecute i TXT) (Inr out)))"

text \<open>The error result of \<^verbatim>\<open>Parse\<close> is assigned to \<^verbatim>\<open>_\<close>: only the template pointer is
  kept, nil after a syntax error.\<close>

definition parseHTML :: "('h, 't) world \<Rightarrow> nat \<Rightarrow> string \<Rightarrow> 'h option step" where
  "parseHTML w i src =
     call (CallParse i HTML) (Inr (case hParse w src of Inl err \<Rightarrow> None | Inr t \<Rightarrow> Some t))"

definition parseTXT :: "('h, 't) world \<Rightarrow> nat \<Rightarrow> string \<Rightarrow> 't option step" where
  "parseTXT w i src =
     call (CallParse i TXT) (Inr (case tParse w src of Inl err \<Rightarrow> None | Inr t \<Rightarrow> Some t))"

definition assemble :: "('h, 't) world \<Rightarrow> mailMessage \<Rightarrow> string \<Rightarrow> string \<Rightarrow> Message" where
  "assemble w mailMsg htmlBody txtBody =
     (let ccAddresses = formatAll w (CC mailMsg);
          bccAddresses = formatAll w (BCC mailMsg)
      in SetHeader w ''Reply-To'' [ReplyToAddress mailMsg]
          (SetHeader w ''Bcc'' bccAddresses
          (SetHeader w ''Cc'' ccAddresses
          (SetHeader w ''Subject'' [Subject mailMsg]
          (SetHeader w ''To'' [ToAddress mailMsg]
          (SetAddressHeader w ''From'' (FromAddress mailMsg) (FromName mailMsg)
          (AddAlternative ''text/html'' htmlBody
          (SetBody ''text/plain'' txtBody NewMessage))))))))"

definition buildMailContent ::
    "('h, 't) world \<Rightarrow> string \<Rightarrow> nat \<Rightarrow> mailMessage \<Rightarrow> Message step" where
  "buildMailContent w storageConnector i mailMsg =
     andThen (fetch w storageConnector i (Template mailMsg @ ''.html.template'')) (\<lambda>htmlSrc.
     andThen (parseHTML w i htmlSrc) (\<lambda>htmlTmpl.
     andThen (fetch w storageConnector i (Template mailMsg @ ''.txt.template'')) (\<lambda>txtSrc.
     andThen (parseTXT w i txtSrc) (\<lambda>txtTmpl.
     andThen (executeHTML w i htmlTmpl (TemplateContext mailMsg)) (\<lambda>htmlBody.
     andThen (executeTXT w i txtTmpl (TemplateContext mailMsg)) (\<lambda>txtBody.
     ret (assemble w mailMsg htmlBody txtBody)))))))"

subsection \<open>HandleRequest\<close>

definition NewDialer :: "string \<Rightarrow> int \<Rightarrow> string \<Rightarrow> string \<Rightarrow> Dialer" where
  "NewDialer h p u pw = \<lparr>Host = h, Port = p, Username = u, Password = pw\<rparr>"

definition decode :: "('h, 't) world \<Rightarrow> nat \<Rightarrow> string \<Rightarrow> mailMessage step" where
  "decode w i body =
     (case Unmarshal w body of
        Inl err \<Rightarrow>
          andThen (call (CallUnmarshal i body) (Inr ()))
            (\<lambda>_. exitErrorf (''Unable to unmarshal JSON for reason: %+v'' @ newline @ ''Body: %s'')
                   [ErrArg err, StrArg body])
      | Inr mailMsg \<Rightarrow> call (CallUnmarshal i body) (Inr mailMsg))"

definition dispatch :: "('h, 't) world \<Rightarrow> Dialer \<Rightarrow> nat \<Rightarrow> Message \<Rightarrow> unit step" where
  "dispatch w smtpTransport i mail =
     (case DialAndSend w smtpTransport i mail of
        Some err \<Rightarrow>
          andThen (call (CallDialAndSend i mail) (Inr ()))
            (\<lambda>_. exitErrorf (''Unable to send mail: %+v'' @ newline) [ErrArg err])
      | None \<Rightarrow> call (CallDialAndSend i mail) (Inr ()))"

text \<open>The body of the loop over \<^verbatim>\<open>event.Records\<close>, for the record at index \<open>i\<close>.\<close>

definition handleRecord ::
    "('h, 't) world \<Rightarrow> config \<Rightarrow> Dialer \<Rightarrow> nat \<Rightarrow> SQSMessage \<Rightarrow> unit step" where
  "handleRecord w cfg smtpTransport i message =
     andThen (decode w i (Body message)) (\<lambda>mailMsg.
     andThen (buildMailContent w (Bucket cfg) i mailMsg) (\<lambda>mail.
     dispatch w smtpTransport i mail))"

fun handleRecords ::
    "('h, 't) world \<Rightarrow> config \<Rightarrow> Dialer \<Rightarrow> nat \<Rightarrow> SQSMessage list \<Rightarrow> unit step" where
  "handleRecords w cfg smtpTransport i [] = ret ()"
| "handleRecords w cfg smtpTransport i (message # rest) =
     andThen (handleRecord w cfg smtpTransport i message)
       (\<lambda>_. handleRecords w cfg smtpTransport (Suc i) rest)"

definition HandleRequest :: "('h, 't) world \<Rightarrow> SQSMessage list \<Rightarrow> event list \<times> outcome" where
  "HandleRequest w records =
     (case env_Parse w of
        Inl err \<Rightarrow>
          (case (exitErrorf (''Unable to parse configuration: %+v'' @ newline) [ErrArg err]
                  :: unit step) of
             (es, Inl out) \<Rightarrow> (es, out)
           | (es, Inr _) \<Rightarrow> (es, Returned None))
      | Inr cfg \<Rightarrow>
          (let smtpTransport =
                 NewDialer (SMTPHost cfg) (SMTPPort cfg) (SMTPUserName cfg) (SMTPPassword cfg)
           in case handleRecords w cfg smtpTransport 0 records of
                (es, Inl out) \<Rightarrow> (es, out)
              | (es, Inr _) \<Rightarrow> (es, Returned None)))"

subsection \<open>Reading a run\<close>

text \<open>The record an event belongs to; a write to standard error belongs to none.\<close>

fun record_of :: "event \<Rightarrow> nat option" where
  "record_of (CallUnmarshal i body) = Some i"
| "record_of (CallGetTemplateContent i name) = Some i"
| "record_of (CallParse i k) = Some i"
| "record_of (CallExecute i k) = Some i"
| "record_of (CallDialAndSend i mail) = Some i"
| "record_of (WriteStderr msg args) = None"

text \<open>The same for the calls that follow decoding: template fetch, parsing and
  rendering, and dispatch.\<close>

fun downstream_of :: "event \<Rightarrow> nat option" where
  "downstream_of (CallUnmarshal i body) = None"
| "downstream_of (CallGetTemplateContent i name) = Some i"
| "downstream_of (CallParse i k) = Some i"
| "downstream_of (CallExecute i k) = Some i"
| "downstream_of (CallDialAndSend i mail) = Some i"
| "downstream_of (WriteStderr msg args) = None"

fun is_stderr :: "event \<Rightarrow> bool" where
  "is_stderr (WriteStderr msg args) = True"
| "is_stderr e = False"

text \<open>Every step of a record goes through: the body decodes, both templates are
  fetched, parse and execute, and the transport accepts the message.\<close>

definition stepsSucceed ::
    "('h, 't) world \<Rightarrow> config \<Rightarrow> Dialer \<Rightarrow> nat \<Rightarrow> SQSMessage \<Rightarrow> bool" where
  "stepsSucceed w cfg smtpTransport i message =
     (case Unmarshal w (Body message) of
        Inl e \<Rightarrow> False
      | Inr m \<Rightarrow>
     (case GetTemplateContent w (Bucket cfg) i (Template m @ ''.html.template'') of
        None \<Rightarrow> False
      | Some htmlSrc \<Rightarrow>
     (case hParse w htmlSrc of
        Inl e \<Rightarrow> False
      | Inr htmlTmpl \<Rightarrow>
     (case GetTemplateContent w (Bucket cfg) i (Template m @ ''.txt.template'') of
        None \<Rightarrow> False
      | Some txtSrc \<Rightarrow>
     (case tParse w txtSrc of
        Inl e \<Rightarrow> False
      | Inr txtTmpl \<Rightarrow>
     (case hExecute w htmlTmpl (TemplateContext m) of
        Inl e \<Rightarrow> False
      | Inr htmlBody \<Rightarrow>
     (case tExecute w txtTmpl (TemplateContext m) of
        Inl e \<Rightarrow> False
      | Inr txtBody \<Rightarrow>
          DialAndSend w smtpTransport i (assemble w m htmlBody txtBody) = None)))))))"

definition dialerOf :: "config \<Rightarrow> Dialer" where
  "dialerOf cfg = NewDialer (SMTPHost cfg) (SMTPPort cfg) (SMTPUserName cfg) (SMTPPassword cfg)"

subsection \<open>A fragment of the template engines\<close>

text \<open>
  Modelled from the spec: the Template Renderer of section 4.2, which main.go takes from
  the packages html/template and text/template; neither is among the sources. Section
  4.2 gives two modes over one context mapping: HTML mode substitutes a context value
  "with automatic escaping of markup-significant characters", text mode substitutes it
  "literally, with no escaping". The grammar is left open there. The fragment covers
  templates made of literal text and of actions \<^verbatim>\<open>{{.key}}\<close>, and for HTML mode only those
  whose actions all stand in element content and which end there; html/template chooses
  its escaper by the place of the action (attribute, URL, script, style), and what it
  does at the other places is a parameter of \<open>htmlExecute\<close>. What section 4.2 leaves open
  is taken from the two packages:
  \<^item> the characters HTML mode replaces in element content, and their replacements, are
    the replacement table of html/template's HTML escaper;
  \<^item> a value that is not a string is printed by \<^verbatim>\<open>fmt\<close>, a parameter \<open>sprint\<close> here;
    html/template writes nothing for nil;
  \<^item> main.go creates both templates with \<^verbatim>\<open>New(...).Parse(...)\<close> and sets no option on
    them, and executes them on \<^verbatim>\<open>mailMsg.TemplateContext\<close>, a \<^verbatim>\<open>map[string]interface{}\<close>.
    With the default option \<^verbatim>\<open>missingkey=default\<close> a key the map does not have is no
    error: text/template writes \<^verbatim>\<open><no value>\<close> for it and html/template writes nothing.
    Here the packages differ from the words of section 4.2, which lists an absent field
    as a render error.
\<close>

datatype node = TextNode string | FieldNode string

definition htmlReplacement :: "char \<Rightarrow> string" where
  "htmlReplacement c =
     (if c = CHR 0x00 then [CHR 0xEF, CHR 0xBF, CHR 0xBD]
      else if c = CHR 0x22 then ''&#34;''
      else if c = CHR ''&'' then ''&amp;''
      else if c = CHR 0x27 then ''&#39;''
      else if c = CHR ''+'' then ''&#43;''
      else if c = CHR ''<'' then ''&lt;''
      else if c = CHR ''>'' then ''&gt;''
      else [c])"

definition htmlEscaper :: "string \<Rightarrow> string" where
  "htmlEscaper s = concat (map htmlReplacement s)"

text \<open>The text a value is printed as: a string is itself.\<close>

fun printed :: "(json \<Rightarrow> string) \<Rightarrow> json \<Rightarrow> string" where
  "printed sprint (JString s) = s"
| "printed sprint v = sprint v"

fun textValue :: "(json \<Rightarrow> string) \<Rightarrow> json option \<Rightarrow> string" where
  "textValue sprint None = ''<no value>''"
| "textValue sprint (Some v) = printed sprint v"

fun htmlValue :: "(json \<Rightarrow> string) \<Rightarrow> json option \<Rightarrow> string" where
  "htmlValue sprint None = []"
| "htmlValue sprint (Some JNull) = []"
| "htmlValue sprint (Some v) = htmlEscaper (printed sprint v)"

fun textNode :: "(json \<Rightarrow> string) \<Rightarrow> bindings \<Rightarrow> node \<Rightarrow> string" where
  "textNode sprint ctx (TextNode s) = s"
| "textNode sprint ctx (FieldNode k) = textValue sprint (ctx k)"

fun htmlNode :: "(json \<Rightarrow> string) \<Rightarrow> bindings \<Rightarrow> node \<Rightarrow> string" where
  "htmlNode sprint ctx (TextNode s) = s"
| "htmlNode sprint ctx (FieldNode k) = htmlValue sprint (ctx k)"

definition textExecute :: "(json \<Rightarrow> string) \<Rightarrow> node list \<Rightarrow> bindings \<Rightarrow> error + string" where
  "textExecute sprint tmpl ctx = Inr (concat (map (textNode sprint ctx) tmpl))"

text \<open>
  Where an HTML text stands after a prefix of it: in element content (\<open>InText\<close>), just
  after \<^verbatim>\<open><\<close>, in a tag name, inside a tag, or at a place the fragment does not follow
  (\<open>Elsewhere\<close>). The fragment follows tags without attribute values only: an \<^verbatim>\<open>=\<close>, a
  quote, a backquote or a \<^verbatim>\<open><\<close> inside a tag leads elsewhere, and so do comments and
  declarations, a \<^verbatim>\<open><\<close> that no letter or \<^verbatim>\<open>/\<close> follows, and the tags \<^verbatim>\<open>script\<close>,
  \<^verbatim>\<open>style\<close>, \<^verbatim>\<open>textarea\<close> and \<^verbatim>\<open>title\<close>, whose content html/template does not treat
  as element content.
\<close>

datatype reader = InText | TagOpen | TagName string | InTag | Elsewhere

definition letters :: "(char \<times> char) list" where
  "letters = zip ''ABCDEFGHIJKLMNOPQRSTUVWXYZabcdefghijklmnopqrstuvwxyz''
                 ''abcdefghijklmnopqrstuvwxyzabcdefghijklmnopqrstuvwxyz''"

definition special :: "string list" where
  "special = [''script'', ''style'', ''textarea'', ''title'']"

fun inTag :: "char \<Rightarrow> reader" where
  "inTag c =
     (if c = CHR ''>'' then InText
      else if c \<in> {CHR ''='', CHR 0x22, CHR 0x27, CHR 0x60, CHR ''<''} then Elsewhere
      else InTag)"

fun step :: "reader \<Rightarrow> char \<Rightarrow> reader" where
  "step InText c = (if c = CHR ''<'' then TagOpen else InText)"
| "step TagOpen c =
     (if c = CHR ''/'' then InTag
      else (case map_of letters c of None \<Rightarrow> Elsewhere | Some l \<Rightarrow> TagName [l]))"
| "step (TagName n) c =
     (case map_of letters c of
        Some l \<Rightarrow> TagName (n @ [l])
      | None \<Rightarrow> if n \<in> set special then Elsewhere else inTag c)"
| "step InTag c = inTag c"
| "step Elsewhere c = Elsewhere"

text \<open>A template is in the fragment for HTML mode when each of its actions stands in
  element content and the template ends there. html/template decides the place of an
  action from the literal text before it, not from the values.\<close>

fun elementContent :: "reader \<Rightarrow> node list \<Rightarrow> bool" where
  "elementContent st [] = (st = InText)"
| "elementContent st (TextNode s # tmpl) = elementContent (foldl step st s) tmpl"
| "elementContent st (FieldNode k # tmpl) = (st = InText \<and> elementContent st tmpl)"

text \<open>\<open>other\<close> is what html/template does with a template outside the fragment.\<close>

definition htmlExecute ::
    "(json \<Rightarrow> string) \<Rightarrow> (node list \<Rightarrow> bindings \<Rightarrow> error + string) \<Rightarrow> node list \<Rightarrow> bindings
      \<Rightarrow> error + string" where
  "htmlExecute sprint other tmpl ctx =
     (if elementContent InText tmpl then Inr (concat (map (htmlNode sprint ctx) tmpl))
      else other tmpl ctx)"






subsection \<open>A test double of the packages\<close>

text \<open>
  The examples run the handler in a world that answers for the texts they use: each
  record body with its JSON value, each template name with its source, each source with
  its parse tree. Any other body or source is reported as a syntax error, any other name
  as a failed fetch. Templates execute by the fragment above; the templates of the
  examples are in the fragment and their context values are strings, so that neither
  \<open>testOther\<close> nor \<open>testSprint\<close> is ever called. The transport accepts every message;
  member names are matched exactly.
\<close>

definition bodyEmpty :: string where
  \<open>bodyEmpty = ''{}''\<close>

definition bodyWelcome :: string where
  \<open>bodyWelcome = ''{"from_address":"noreply@example.org","to_address":"ann@example.org","reply_to":"help@example.org","template_name":"welcome","subject":"Welcome","cc":["bob@example.org","eve@example.org"],"template_context":{"name":"<b>Ann</b> & co"}}''\<close>

definition bodyNoContext :: string where
  \<open>bodyNoContext = ''{"to_address":"ann@example.org","template_name":"welcome","subject":"Welcome"}''\<close>

definition bodyUnclosed :: string where
  \<open>bodyUnclosed = ''{"to_address":"ann@example.org","template_name":"unclosed"}''\<close>

definition bodyTruncated :: string where
  \<open>bodyTruncated = ''{"to_address":''\<close>

definition bodyAccent :: string where
  \<open>bodyAccent = ''{"subject":"H'' @ [CHR 0xC3, CHR 0xA9] @ ''llo"}''\<close>

definition bodyUnknownMember :: string where
  \<open>bodyUnknownMember = ''{"priority":"high"}''\<close>

definition testJSON :: "string \<Rightarrow> error + json" where
  "testJSON body =
     (if body = bodyEmpty then Inr (JObject [])
      else if body = bodyWelcome then
        Inr (JObject
          [(''from_address'', JString ''noreply@example.org''),
           (''to_address'', JString ''ann@example.org''),
           (''reply_to'', JString ''help@example.org''),
           (''template_name'', JString ''welcome''),
           (''subject'', JString ''Welcome''),
           (''cc'', JArray [JString ''bob@example.org'', JString ''eve@example.org'']),
           (''template_context'', JObject [(''name'', JString ''<b>Ann</b> & co'')])])
      else if body = bodyNoContext then
        Inr (JObject
          [(''to_address'', JString ''ann@example.org''),
           (''template_name'', JString ''welcome''),
           (''subject'', JString ''Welcome'')])
      else if body = bodyUnclosed then
        Inr (JObject
          [(''to_address'', JString ''ann@example.org''),
           (''template_name'', JString ''unclosed'')])
      else if body = bodyUnknownMember then
        Inr (JObject [(''priority'', JString ''high'')])
      else if body = bodyAccent then
        Inr (JObject [(''subject'', JString (''H'' @ [CHR 0xC3, CHR 0xA9] @ ''llo''))])
      else Inl (ErrorString ''unexpected end of JSON input''))"

definition testStorage :: "string \<Rightarrow> nat \<Rightarrow> string \<Rightarrow> string option" where
  "testStorage bucket i name =
     (if name = ''welcome.html.template'' then Some ''<p>Hello {{.name}}</p>''
      else if name = ''welcome.txt.template'' then Some ''Hello {{.name}}''
      else if name = ''unclosed.html.template'' then Some ''<p>Hello {{.name''
      else if name = ''unclosed.txt.template'' then Some ''Hello''
      else if name = ''.html.template'' then Some ''<p>Hello</p>''
      else if name = ''.txt.template'' then Some ''Hello''
      else None)"

definition testParse :: "string \<Rightarrow> error + node list" where
  "testParse src =
     (if src = ''<p>Hello {{.name}}</p>'' then
        Inr [TextNode ''<p>Hello '', FieldNode ''name'', TextNode ''</p>'']
      else if src = ''Hello {{.name}}'' then Inr [TextNode ''Hello '', FieldNode ''name'']
      else if src = ''<p>Hello</p>'' then Inr [TextNode ''<p>Hello</p>'']
      else if src = ''Hello'' then Inr [TextNode ''Hello'']
      else Inl (ErrorString ''unclosed action''))"

definition testConfig :: config where
  "testConfig =
     \<lparr>Bucket = ''templates'', SMTPHost = ''smtp.example.org'', SMTPPort = 465,
      SMTPUserName = ''hermes'', SMTPPassword = ''secret''\<rparr>"

text \<open>
  The header encoder of the double is gomail's default for a text whose encoded form fits
  one encoded word, as every text of the examples does: a text of printable ASCII and
  tabs is left as it is; any other becomes \<^verbatim>\<open>=?UTF-8?q?...?=\<close>, with a space written as
  \<^verbatim>\<open>_\<close> and every byte that is not printable ASCII, and each of \<^verbatim>\<open>=\<close>, \<^verbatim>\<open>?\<close> and \<^verbatim>\<open>_\<close>,
  as \<^verbatim>\<open>=\<close> and two hexadecimal digits.
\<close>

definition needsEncoding :: "string \<Rightarrow> bool" where
  "needsEncoding s =
     list_ex (\<lambda>c. (of_char c < (32::nat) \<or> (126::nat) < of_char c) \<and> c \<noteq> CHR 0x09) s"

definition hexDigit :: "nat \<Rightarrow> char" where
  "hexDigit n = ''0123456789ABCDEF'' ! (n mod 16)"

definition qByte :: "char \<Rightarrow> string" where
  "qByte c =
     (if c = CHR '' '' then ''_''
      else if (33::nat) \<le> of_char c \<and> of_char c \<le> (126::nat)
              \<and> c \<noteq> CHR ''='' \<and> c \<noteq> CHR ''?'' \<and> c \<noteq> CHR ''_'' then [c]
      else [CHR ''='', hexDigit (of_char c div 16), hexDigit (of_char c)])"

definition testEncode :: "string \<Rightarrow> string" where
  "testEncode s =
     (if needsEncoding s then ''=?UTF-8?q?'' @ concat (map qByte s) @ ''?='' else s)"

definition testOther :: "node list \<Rightarrow> bindings \<Rightarrow> error + string" where
  "testOther tmpl ctx = Inl (ErrorString ''outside the fragment'')"

definition testSprint :: "json \<Rightarrow> string" where
  "testSprint v = (case v of JBool True \<Rightarrow> ''true'' | JBool False \<Rightarrow> ''false'' | _ \<Rightarrow> [])"

definition testWorld :: "(node list, node list) world" where
  "testWorld =
     \<lparr>env_Parse = Inr testConfig,
      json_parse = testJSON,
      equalFold = (=),
      GetTemplateContent = testStorage,
      hParse = testParse,
      hExecute = htmlExecute testSprint testOther,
      tParse = testParse,
      tExecute = textExecute testSprint,
      FormatAddress = (\<lambda>address name.
         if name = [] then address
         else [CHR 0x22] @ name @ [CHR 0x22] @ '' <'' @ address @ ''>''),
      encodeHeader = testEncode,
      DialAndSend = (\<lambda>d i mail. None)\<rparr>"

text \<open>Two worlds whose engines report an error: the text engine of the first, the HTML
  engine of the second.\<close>

definition failingWorld :: "(node list, node list) world" where
  "failingWorld = testWorld\<lparr>tExecute := (\<lambda>tmpl ctx. Inl (ErrorString ''execution failed''))\<rparr>"

definition failingHtmlWorld :: "(node list, node list) world" where
  "failingHtmlWorld =
     testWorld\<lparr>hExecute := (\<lambda>tmpl ctx. Inl (ErrorString ''execution failed''))\<rparr>"

text \<open>The batches of the examples, and the request that \<open>bodyWelcome\<close> decodes to.\<close>

definition batchTruncatedSecond :: "SQSMessage list" where
  "batchTruncatedSecond =
     [\<lparr>Body = bodyWelcome\<rparr>, \<lparr>Body = bodyTruncated\<rparr>, \<lparr>Body = bodyEmpty\<rparr>]"

definition batchAllGood :: "SQSMessage list" where
  "batchAllGood = [\<lparr>Body = bodyWelcome\<rparr>, \<lparr>Body = bodyEmpty\<rparr>]"

definition requestWelcome :: mailMessage where
  "requestWelcome =
     \<lparr>FromName = [], FromAddress = ''noreply@example.org'', ToAddress = ''ann@example.org'',
      ReplyToAddress = ''help@example.org'', Template = ''welcome'', Subject = ''Welcome'',
      CC = [''bob@example.org'', ''eve@example.org''], BCC = [],
      TemplateContext = [''name'' \<mapsto> JString ''<b>Ann</b> & co'']\<rparr>"

text \<open>The ways a run ends without returning.\<close>

definition abnormal :: "outcome \<Rightarrow> bool" where
  "abnormal out = (out = Exited 1 \<or> out = Panicked \<or> out = StorageFailed)"

section \<open>Properties of the model\<close>

subsection \<open>Sequencing of steps, and the calls of one record\<close>

lemma fst_andThen_subset:
  "set (fst (andThen s f)) \<subseteq> set (fst s) \<union> (\<Union>a. set (fst (f a)))"
proof (cases s)
  case (Pair es r)
  show ?thesis
  proof (cases r)
    case (Inl out)
    with Pair show ?thesis by (simp add: andThen_def)
  next
    case (Inr a)
    obtain es' r' where fa: "f a = (es', r')" by (cases "f a")
    then have "set es' \<subseteq> (\<Union>a. set (fst (f a)))" by (metis UN_upper UNIV_I fst_conv)
    with Pair Inr fa show ?thesis by (auto simp: andThen_def)
  qed
qed

lemma andThen_events:
  assumes "\<And>e. e \<in> set (fst s) \<Longrightarrow> P e" and "\<And>a e. e \<in> set (fst (f a)) \<Longrightarrow> P e"
    and "e \<in> set (fst (andThen s f))"
  shows "P e"
  using assms fst_andThen_subset[of s f] by blast

lemma andThen_Inl: "snd s = Inl out \<Longrightarrow> andThen s f = s"
  by (cases s) (auto simp: andThen_def)

lemma andThen_Inr: "snd s = Inr a \<Longrightarrow> andThen s f = (fst s @ fst (f a), snd (f a))"
  by (cases s) (auto simp: andThen_def split: prod.splits)

lemma snd_andThen_Inr_iff:
  "snd (andThen s f) = Inr b \<longleftrightarrow> (\<exists>a. snd s = Inr a \<and> snd (f a) = Inr b)"
  by (cases s) (auto simp: andThen_def split: prod.splits sum.splits)

lemma andThen_ret: "andThen s ret = s"
  by (cases s) (auto simp: andThen_def ret_def split: sum.splits)

lemma andThen_assoc:
  "andThen (andThen s f) g = andThen s (\<lambda>a. andThen (f a) g)"
  by (cases s) (auto simp: andThen_def split: prod.splits sum.splits)

lemma ret_andThen: "andThen (ret a) f = f a"
  by (auto simp: andThen_def ret_def split: prod.splits)

lemma handleRecords_append:
  "handleRecords w cfg d i (xs @ ys) =
     andThen (handleRecords w cfg d i xs) (\<lambda>_. handleRecords w cfg d (i + length xs) ys)"
proof (induction xs arbitrary: i)
  case Nil show ?case by (simp add: ret_andThen)
next
  case (Cons x xs) then show ?case by (simp add: andThen_assoc)
qed

lemma decode_eq:
  "decode w i body =
     (case Unmarshal w body of
        Inl err \<Rightarrow> ([CallUnmarshal i body,
                    WriteStderr (''Unable to unmarshal JSON for reason: %+v'' @ newline @ ''Body: %s'' @ newline)
                      [ErrArg err, StrArg body]], Inl (Exited 1))
      | Inr m \<Rightarrow> ([CallUnmarshal i body], Inr m))"
  by (simp add: decode_def andThen_def call_def exitErrorf_def split: sum.splits)

lemma record_of_fetch: "e \<in> set (fst (fetch w b i n)) \<Longrightarrow> record_of e = Some i"
  by (simp add: fetch_def call_def)

lemma record_of_parseHTML: "e \<in> set (fst (parseHTML w i s)) \<Longrightarrow> record_of e = Some i"
  by (simp add: parseHTML_def call_def)

lemma record_of_parseTXT: "e \<in> set (fst (parseTXT w i s)) \<Longrightarrow> record_of e = Some i"
  by (simp add: parseTXT_def call_def)

lemma record_of_executeHTML:
  "e \<in> set (fst (executeHTML w i t c)) \<Longrightarrow> record_of e = Some i \<or> record_of e = None"
  by (auto simp: executeHTML_def call_def andThen_def exitErrorf_def split: option.splits sum.splits)

lemma record_of_executeTXT:
  "e \<in> set (fst (executeTXT w i t c)) \<Longrightarrow> record_of e = Some i \<or> record_of e = None"
  by (auto simp: executeTXT_def call_def andThen_def exitErrorf_def split: option.splits sum.splits)

lemma record_of_decode:
  "e \<in> set (fst (decode w i b)) \<Longrightarrow> record_of e = Some i \<or> record_of e = None"
  by (auto simp: decode_eq split: sum.splits)

lemma record_of_dispatch:
  "e \<in> set (fst (dispatch w d i m)) \<Longrightarrow> record_of e = Some i \<or> record_of e = None"
  by (auto simp: dispatch_def call_def andThen_def exitErrorf_def split: option.splits sum.splits)

lemma record_of_buildMailContent:
  assumes "e \<in> set (fst (buildMailContent w b i m))"
  shows "record_of e = Some i \<or> record_of e = None"
  using assms unfolding buildMailContent_def
  by (elim andThen_events[rotated 2])
     (auto dest: record_of_fetch record_of_parseHTML record_of_parseTXT
        record_of_executeHTML record_of_executeTXT simp: ret_def)

lemma record_of_handleRecord:
  assumes "e \<in> set (fst (handleRecord w cfg d i r))"
  shows "record_of e = Some i \<or> record_of e = None"
  using assms unfolding handleRecord_def
  by (elim andThen_events[rotated 2])
     (auto dest: record_of_decode record_of_buildMailContent record_of_dispatch)

lemma handleRecords_member:
  "e \<in> set (fst (handleRecords w cfg d i rs)) \<Longrightarrow>
     \<exists>j < length rs. e \<in> set (fst (handleRecord w cfg d (i + j) (rs ! j)))"
proof (induction rs arbitrary: i)
  case Nil then show ?case by (simp add: ret_def)
next
  case (Cons r rs)
  from Cons.prems fst_andThen_subset
  have "e \<in> set (fst (handleRecord w cfg d i r)) \<or> e \<in> set (fst (handleRecords w cfg d (Suc i) rs))"
    by fastforce
  then show ?case
  proof
    assume "e \<in> set (fst (handleRecord w cfg d i r))"
    then show ?thesis by (intro exI[of _ 0]) simp
  next
    assume "e \<in> set (fst (handleRecords w cfg d (Suc i) rs))"
    from Cons.IH[OF this] obtain j where "j < length rs"
      "e \<in> set (fst (handleRecord w cfg d (Suc i + j) (rs ! j)))" by blast
    then show ?thesis by (intro exI[of _ "Suc j"]) simp
  qed
qed

subsection \<open>When a record goes through all its steps\<close>

lemma snd_andThen_Inl:
  "snd (andThen s f) = Inl out \<Longrightarrow> snd s = Inl out \<or> (\<exists>a. snd (f a) = Inl out)"
  apply (cases s)
  apply (auto simp: andThen_def split: prod.splits sum.splits)
  by (metis snd_conv)

lemma snd_decode: "snd (decode w i b) = Inr m \<longleftrightarrow> Unmarshal w b = Inr m"
  by (auto simp: decode_eq split: sum.splits)

lemma snd_fetch: "snd (fetch w b i n) = Inr c \<longleftrightarrow> GetTemplateContent w b i n = Some c"
  by (auto simp: fetch_def call_def split: option.splits)

lemma snd_parseHTML:
  "snd (parseHTML w i s) = Inr t \<longleftrightarrow> t = (case hParse w s of Inl err \<Rightarrow> None | Inr t \<Rightarrow> Some t)"
  by (auto simp: parseHTML_def call_def)

lemma snd_parseTXT:
  "snd (parseTXT w i s) = Inr t \<longleftrightarrow> t = (case tParse w s of Inl err \<Rightarrow> None | Inr t \<Rightarrow> Some t)"
  by (auto simp: parseTXT_def call_def)

lemma snd_executeHTML:
  "snd (executeHTML w i t c) = Inr out \<longleftrightarrow> (\<exists>tt. t = Some tt \<and> hExecute w tt c = Inr out)"
  by (auto simp: executeHTML_def call_def andThen_def exitErrorf_def split: option.splits sum.splits)

lemma snd_executeTXT:
  "snd (executeTXT w i t c) = Inr out \<longleftrightarrow> (\<exists>tt. t = Some tt \<and> tExecute w tt c = Inr out)"
  by (auto simp: executeTXT_def call_def andThen_def exitErrorf_def split: option.splits sum.splits)

lemma snd_dispatch: "snd (dispatch w d i m) = Inr u \<longleftrightarrow> DialAndSend w d i m = None"
  by (auto simp: dispatch_def call_def andThen_def exitErrorf_def split: option.splits)

lemma snd_ret: "snd (ret a) = Inr b \<longleftrightarrow> a = b"
  by (auto simp: ret_def)

lemma snd_buildMailContent:
  "snd (buildMailContent w b i m) = Inr mail \<longleftrightarrow>
     (\<exists>hs ht ts tt hb tb.
        GetTemplateContent w b i (Template m @ ''.html.template'') = Some hs \<and>
        hParse w hs = Inr ht \<and>
        GetTemplateContent w b i (Template m @ ''.txt.template'') = Some ts \<and>
        tParse w ts = Inr tt \<and>
        hExecute w ht (TemplateContext m) = Inr hb \<and>
        tExecute w tt (TemplateContext m) = Inr tb \<and>
        mail = assemble w m hb tb)"
  unfolding buildMailContent_def
  apply (simp add: snd_andThen_Inr_iff snd_fetch snd_parseHTML snd_parseTXT snd_executeHTML
        snd_executeTXT snd_ret)
  apply (cases "GetTemplateContent w b i (Template m @ ''.html.template'')"; simp)
  apply (cases "GetTemplateContent w b i (Template m @ ''.txt.template'')"; simp)
  apply (auto split: sum.splits)
  done

lemma handleRecord_Inr_iff:
  "snd (handleRecord w cfg d i r) = Inr u \<longleftrightarrow> stepsSucceed w cfg d i r"
proof (cases "Unmarshal w (Body r)")
  case (Inl e)
  then show ?thesis
    by (simp add: handleRecord_def stepsSucceed_def snd_andThen_Inr_iff snd_decode)
next
  case m: (Inr m)
  show ?thesis
  proof (cases "GetTemplateContent w (Bucket cfg) i (Template m @ ''.html.template'')")
    case None
    with m show ?thesis
      by (simp add: handleRecord_def stepsSucceed_def snd_andThen_Inr_iff snd_decode
            snd_buildMailContent)
  next
    case hs: (Some hs)
    show ?thesis
    proof (cases "hParse w hs")
      case (Inl e)
      with m hs show ?thesis
        by (simp add: handleRecord_def stepsSucceed_def snd_andThen_Inr_iff snd_decode
              snd_buildMailContent)
    next
      case ht: (Inr ht)
      show ?thesis
      proof (cases "GetTemplateContent w (Bucket cfg) i (Template m @ ''.txt.template'')")
        case None
        with m hs ht show ?thesis
          by (simp add: handleRecord_def stepsSucceed_def snd_andThen_Inr_iff snd_decode
                snd_buildMailContent)
      next
        case ts: (Some ts)
        show ?thesis
        proof (cases "tParse w ts")
          case (Inl e)
          with m hs ht ts show ?thesis
            by (simp add: handleRecord_def stepsSucceed_def snd_andThen_Inr_iff snd_decode
                  snd_buildMailContent)
        next
          case tt: (Inr tt)
          show ?thesis
          proof (cases "hExecute w ht (TemplateContext m)")
            case (Inl e)
            with m hs ht ts tt show ?thesis
              by (simp add: handleRecord_def stepsSucceed_def snd_andThen_Inr_iff snd_decode
                    snd_buildMailContent)
          next
            case hb: (Inr hb)
            show ?thesis
            proof (cases "tExecute w tt (TemplateContext m)")
              case (Inl e)
              with m hs ht ts tt hb show ?thesis
                by (simp add: handleRecord_def stepsSucceed_def snd_andThen_Inr_iff snd_decode
                      snd_buildMailContent)
            next
              case tb: (Inr tb)
              with m hs ht ts tt hb show ?thesis
                by (simp add: handleRecord_def stepsSucceed_def snd_andThen_Inr_iff snd_decode
                      snd_buildMailContent snd_dispatch)
            qed
          qed
        qed
      qed
    qed
  qed
qed

lemma handleRecords_Inr_iff:
  "snd (handleRecords w cfg d i rs) = Inr () \<longleftrightarrow>
     (\<forall>j < length rs. stepsSucceed w cfg d (i + j) (rs ! j))"
proof (induction rs arbitrary: i)
  case Nil show ?case by (simp add: ret_def)
next
  case (Cons r rs)
  have "(\<forall>j < length (r # rs). stepsSucceed w cfg d (i + j) ((r # rs) ! j)) \<longleftrightarrow>
        stepsSucceed w cfg d i r \<and> (\<forall>j < length rs. stepsSucceed w cfg d (Suc i + j) (rs ! j))"
    by (auto simp: less_Suc_eq_0_disj)
  then show ?case
    using Cons.IH[of "Suc i"] by (simp add: snd_andThen_Inr_iff handleRecord_Inr_iff)
qed

lemma abnormal_exitErrorf: "snd (exitErrorf msg args) = Inl out \<Longrightarrow> out = Exited 1"
  by (simp add: exitErrorf_def call_def)

lemma abn_decode: "snd (decode w i b) = Inl out \<Longrightarrow> abnormal out"
  by (auto simp: decode_eq abnormal_def split: sum.splits)

lemma abn_fetch: "snd (fetch w b i n) = Inl out \<Longrightarrow> abnormal out"
  by (auto simp: fetch_def call_def abnormal_def split: option.splits)

lemma abn_parseHTML: "snd (parseHTML w i s) = Inl out \<Longrightarrow> abnormal out"
  by (auto simp: parseHTML_def call_def)

lemma abn_parseTXT: "snd (parseTXT w i s) = Inl out \<Longrightarrow> abnormal out"
  by (auto simp: parseTXT_def call_def)

lemma abn_executeHTML: "snd (executeHTML w i t c) = Inl out \<Longrightarrow> abnormal out"
  by (auto simp: executeHTML_def call_def andThen_def exitErrorf_def abnormal_def split: option.splits sum.splits)

lemma abn_executeTXT: "snd (executeTXT w i t c) = Inl out \<Longrightarrow> abnormal out"
  by (auto simp: executeTXT_def call_def andThen_def exitErrorf_def abnormal_def split: option.splits sum.splits)

lemma abn_dispatch: "snd (dispatch w d i m) = Inl out \<Longrightarrow> abnormal out"
  by (auto simp: dispatch_def call_def andThen_def exitErrorf_def abnormal_def split: option.splits)

lemma abn_buildMailContent: "snd (buildMailContent w b i m) = Inl out \<Longrightarrow> abnormal out"
  unfolding buildMailContent_def
  by (auto dest!: snd_andThen_Inl dest: abn_fetch abn_parseHTML abn_parseTXT abn_executeHTML
        abn_executeTXT simp: ret_def)

lemma abn_handleRecord: "snd (handleRecord w cfg d i r) = Inl out \<Longrightarrow> abnormal out"
  unfolding handleRecord_def
  by (auto dest!: snd_andThen_Inl dest: abn_decode abn_buildMailContent abn_dispatch)

lemma abn_handleRecords: "snd (handleRecords w cfg d i rs) = Inl out \<Longrightarrow> abnormal out"
proof (induction rs arbitrary: i)
  case Nil then show ?case by (simp add: ret_def)
next
  case (Cons r rs)
  then show ?case by (auto dest!: snd_andThen_Inl dest: abn_handleRecord)
qed

subsection \<open>Unfolding a run\<close>

lemmas run_defs = HandleRequest_def handleRecord_def decode_def buildMailContent_def dispatch_def
  fetch_def parseHTML_def parseTXT_def executeHTML_def executeTXT_def exitErrorf_def
  andThen_def call_def ret_def Unmarshal_def find_field_def structFields_def store_def
  zero_mailMessage_def NewDialer_def dialerOf_def stepsSucceed_def
  testWorld_def testJSON_def testStorage_def testParse_def testConfig_def
  bodyEmpty_def bodyWelcome_def bodyNoContext_def bodyUnclosed_def bodyTruncated_def
  htmlExecute_def textExecute_def htmlEscaper_def htmlReplacement_def
  fresh_def letters_def special_def testOther_def
  testEncode_def needsEncoding_def qByte_def hexDigit_def

subsection \<open>The loop over the records\<close>

lemma HandleRequest_ok:
  "env_Parse w = Inr cfg \<Longrightarrow>
   HandleRequest w records =
     (case handleRecords w cfg (dialerOf cfg) 0 records of
        (es, Inl out) \<Rightarrow> (es, out) | (es, Inr _) \<Rightarrow> (es, Returned None))"
  by (simp add: HandleRequest_def dialerOf_def)

lemma fst_HandleRequest_ok:
  "env_Parse w = Inr cfg \<Longrightarrow>
   fst (HandleRequest w records) = fst (handleRecords w cfg (dialerOf cfg) 0 records)"
  by (simp add: HandleRequest_ok split: prod.splits sum.splits)

lemma fst_HandleRequest_env_error:
  "env_Parse w = Inl err \<Longrightarrow>
   fst (HandleRequest w records) =
     [WriteStderr (''Unable to parse configuration: %+v'' @ newline @ newline) [ErrArg err]]"
  by (simp add: HandleRequest_def exitErrorf_def call_def)

lemma handleRecords_stops:
  assumes k: "k < length records" and bad: "\<not> stepsSucceed w cfg d k (records ! k)"
  shows "handleRecords w cfg d 0 records = handleRecords w cfg d 0 (take (Suc k) records)"
proof -
  let ?pre = "take (Suc k) records"
  have "snd (handleRecords w cfg d 0 ?pre) \<noteq> Inr ()"
  proof
    assume "snd (handleRecords w cfg d 0 ?pre) = Inr ()"
    then have "\<forall>j < length ?pre. stepsSucceed w cfg d (0 + j) (?pre ! j)"
      by (simp only: handleRecords_Inr_iff)
    from this[rule_format, of k] k bad show False by simp
  qed
  then obtain out where "snd (handleRecords w cfg d 0 ?pre) = Inl out"
    by (cases "snd (handleRecords w cfg d 0 ?pre)") auto
  then have "andThen (handleRecords w cfg d 0 ?pre)
               (\<lambda>_. handleRecords w cfg d (0 + length ?pre) (drop (Suc k) records))
             = handleRecords w cfg d 0 ?pre"
    by (rule andThen_Inl)
  then show ?thesis
    using handleRecords_append[of w cfg d 0 ?pre "drop (Suc k) records"] by simp
qed

lemma handleRecords_record_of:
  assumes "e \<in> set (fst (handleRecords w cfg d 0 records))" "record_of e = Some j"
  shows "j < length records \<and> e \<in> set (fst (handleRecord w cfg d j (records ! j)))"
proof -
  from handleRecords_member[OF assms(1)] obtain j' where
    j': "j' < length records" "e \<in> set (fst (handleRecord w cfg d (0 + j') (records ! j')))"
    by blast
  from record_of_handleRecord[OF j'(2)] assms(2) have "j' = j" by simp
  with j' show ?thesis by simp
qed

lemma handleRecord_decode_error:
  "Unmarshal w (Body r) = Inl err \<Longrightarrow>
   handleRecord w cfg d i r =
     ([CallUnmarshal i (Body r),
       WriteStderr (''Unable to unmarshal JSON for reason: %+v'' @ newline @ ''Body: %s'' @ newline)
         [ErrArg err, StrArg (Body r)]], Inl (Exited 1))"
  by (simp add: handleRecord_def decode_eq andThen_def)

lemma downstream_record_of: "downstream_of e = Some k \<Longrightarrow> record_of e = Some k"
  by (cases e) auto

subsection \<open>Formatting, assembly and decoding\<close>

lemma formatAll_fold:
  "k \<le> length xs \<Longrightarrow>
   fold (\<lambda>i acc. acc[i := f (xs ! i)]) [0 ..< k] (replicate (length xs) d)
     = map f (take k xs) @ replicate (length xs - k) d"
proof (induction k)
  case 0 then show ?case by simp
next
  case (Suc k)
  then have k: "k < length xs" by simp
  have "fold (\<lambda>i acc. acc[i := f (xs ! i)]) [0 ..< Suc k] (replicate (length xs) d)
      = (map f (take k xs) @ replicate (length xs - k) d)[k := f (xs ! k)]"
    using Suc by simp
  also have "\<dots> = map f (take k xs) @ (replicate (length xs - k) d)[0 := f (xs ! k)]"
    using k by (simp add: list_update_append)
  also have "replicate (length xs - k) d = d # replicate (length xs - Suc k) d"
    using k by (metis Suc_diff_Suc replicate_Suc)
  also have "map f (take k xs) @ (d # replicate (length xs - Suc k) d)[0 := f (xs ! k)]
      = map f (take (Suc k) xs) @ replicate (length xs - Suc k) d"
    using k by (simp add: take_Suc_conv_app_nth)
  finally show ?case .
qed

lemma formatAll_map: "formatAll w xs = map (\<lambda>a. FormatAddress w a []) xs"
  unfolding formatAll_def
  using formatAll_fold[of "length xs" xs "\<lambda>a. FormatAddress w a []" "[]"] by simp

lemmas msg_defs = assemble_def SetHeader_def SetAddressHeader_def AddAlternative_def
  SetBody_def NewMessage_def Let_def

lemma members_skip:
  "\<forall>(k, v) \<in> set kvs. find_field eqf k = None \<Longrightarrow> members eqf kvs d = Inr d"
  by (induction kvs) auto

lemma build_no_dispatch:
  assumes "e \<in> set (fst (buildMailContent w b i m))"
  shows "e \<noteq> CallDialAndSend k mail"
  using assms unfolding buildMailContent_def
  by (elim andThen_events[rotated 2])
     (auto simp: fetch_def parseHTML_def parseTXT_def executeHTML_def executeTXT_def
        call_def ret_def andThen_def exitErrorf_def split: option.splits sum.splits)

lemma dispatched_from_decoded:
  assumes "CallDialAndSend k mail \<in> set (fst (handleRecord w cfg d i r))"
  shows "\<exists>m hb tb. Unmarshal w (Body r) = Inr m \<and> mail = assemble w m hb tb \<and> k = i"
proof -
  have nd: "CallDialAndSend k mail \<notin> set (fst (decode w i (Body r)))"
    by (auto simp: decode_eq split: sum.splits)
  have nb: "CallDialAndSend k mail \<notin> set (fst (buildMailContent w b i m))" for b m
    using build_no_dispatch by blast
  show ?thesis
  proof (cases "Unmarshal w (Body r)")
    case (Inl err)
    with assms show ?thesis by (simp add: handleRecord_decode_error)
  next
    case (Inr m)
    then have dec: "decode w i (Body r) = ([CallUnmarshal i (Body r)], Inr m)"
      by (simp add: decode_eq)
    show ?thesis
    proof (cases "snd (buildMailContent w (Bucket cfg) i m)")
      case (Inl out)
      then have "handleRecord w cfg d i r =
          (CallUnmarshal i (Body r) # fst (buildMailContent w (Bucket cfg) i m), Inl out)"
        unfolding handleRecord_def using dec
        by (cases "buildMailContent w (Bucket cfg) i m") (simp add: andThen_def)
      with assms nb show ?thesis by simp
    next
      case b: (Inr mail')
      then obtain hb tb where m': "mail' = assemble w m hb tb"
        by (auto simp: snd_buildMailContent)
      from b have "fst (handleRecord w cfg d i r) =
          CallUnmarshal i (Body r) # fst (buildMailContent w (Bucket cfg) i m)
            @ fst (dispatch w d i mail')"
        unfolding handleRecord_def using dec
        by (cases "buildMailContent w (Bucket cfg) i m")
           (simp add: andThen_def split: prod.splits)
      with assms nb have "CallDialAndSend k mail \<in> set (fst (dispatch w d i mail'))" by simp
      then have "k = i \<and> mail = mail'"
        by (auto simp: dispatch_def call_def andThen_def exitErrorf_def split: option.splits)
      with Inr m' show ?thesis by blast
    qed
  qed
qed

lemma downstream_needs_decode:
  assumes "e \<in> set (fst (handleRecord w cfg d i r))" "downstream_of e = Some k"
  shows "\<exists>m. Unmarshal w (Body r) = Inr m"
proof (cases "Unmarshal w (Body r)")
  case (Inl err)
  with assms show ?thesis by (auto simp: handleRecord_decode_error)
next
  case (Inr m) then show ?thesis by blast
qed

subsection \<open>The HTML escaper\<close>








subsection \<open>The markup of a rendered template\<close>







subsection \<open>The trace of one record\<close>




lemmas ex_defs = run_defs batchTruncatedSecond_def batchAllGood_def requestWelcome_def
  failingWorld_def failingHtmlWorld_def bodyUnknownMember_def bodyAccent_def

section \<open>The claims\<close>

subsection \<open>C1: the first failure aborts the rest of the batch\<close>

text \<open>
  Claim C1. If processing of record \<open>k\<close> fails at any step (decoding, template fetch,
  rendering or dispatch), no record with a greater index is decoded, rendered or
  dispatched: the run is the run on the first \<open>k + 1\<close> records, and every call it makes
  belongs to a record of index at most \<open>k\<close>.
\<close>

theorem fail_fast_aborts_remaining_batch:
  assumes "env_Parse w = Inr cfg" and "k < length records"
    and "\<not> stepsSucceed w cfg (dialerOf cfg) k (records ! k)"
  shows "HandleRequest w records = HandleRequest w (take (Suc k) records) \<and>
         (\<forall>e \<in> set (fst (HandleRequest w records)). \<forall>j. record_of e = Some j \<longrightarrow> j \<le> k)"
proof -
  have eq: "handleRecords w cfg (dialerOf cfg) 0 records
          = handleRecords w cfg (dialerOf cfg) 0 (take (Suc k) records)"
    using assms(2,3) by (rule handleRecords_stops)
  have "\<And>e j. e \<in> set (fst (handleRecords w cfg (dialerOf cfg) 0 records)) \<Longrightarrow>
          record_of e = Some j \<Longrightarrow> j \<le> k"
  proof -
    fix e j
    assume "e \<in> set (fst (handleRecords w cfg (dialerOf cfg) 0 records))" "record_of e = Some j"
    then have "j < length (take (Suc k) records)"
      using handleRecords_record_of[of e w cfg "dialerOf cfg" "take (Suc k) records" j] eq
      by simp
    then show "j \<le> k" by simp
  qed
  then have "\<forall>e \<in> set (fst (HandleRequest w records)). \<forall>j. record_of e = Some j \<longrightarrow> j \<le> k"
    using assms(1) by (simp add: fst_HandleRequest_ok)
  moreover have "HandleRequest w records = HandleRequest w (take (Suc k) records)"
    using assms(1) eq by (simp add: HandleRequest_ok)
  ultimately show ?thesis by simp
qed

text \<open>A batch of three whose second body is cut short: the third record is never
  touched.\<close>

theorem fail_fast_aborts_remaining_batch_witness:
  "env_Parse testWorld = Inr testConfig \<and> 1 < length batchTruncatedSecond \<and>
   \<not> stepsSucceed testWorld testConfig (dialerOf testConfig) 1 (batchTruncatedSecond ! 1) \<and>
   HandleRequest testWorld batchTruncatedSecond
     = HandleRequest testWorld (take (Suc 1) batchTruncatedSecond) \<and>
   CallUnmarshal 2 bodyEmpty \<notin> set (fst (HandleRequest testWorld batchTruncatedSecond))"
proof -
  have h1: "env_Parse testWorld = Inr testConfig" by (simp add: testWorld_def)
  have h2: "1 < length batchTruncatedSecond" by (simp add: batchTruncatedSecond_def)
  have h3: "\<not> stepsSucceed testWorld testConfig (dialerOf testConfig) 1 (batchTruncatedSecond ! 1)"
    by (simp add: ex_defs)
  note t = fail_fast_aborts_remaining_batch[OF h1 h2 h3]
  have "CallUnmarshal 2 bodyEmpty \<notin> set (fst (HandleRequest testWorld batchTruncatedSecond))"
  proof
    assume "CallUnmarshal 2 bodyEmpty \<in> set (fst (HandleRequest testWorld batchTruncatedSecond))"
    with t have "(2::nat) \<le> 1" by (metis record_of.simps(1))
    then show False by simp
  qed
  with t h1 h2 h3 show ?thesis by blast
qed

subsection \<open>C2: a body that is not JSON stops at decoding\<close>

text \<open>
  Claim C2. For a record whose body is not valid JSON, decoding fails, and the run makes
  no template fetch, no parse or render and no dispatch call for that record.
\<close>

theorem invalid_body_short_circuits:
  assumes "k < length records" and "json_parse w (Body (records ! k)) = Inl err"
  shows "Unmarshal w (Body (records ! k)) = Inl err \<and>
         (\<forall>e \<in> set (fst (HandleRequest w records)). downstream_of e \<noteq> Some k)"
proof -
  have u: "Unmarshal w (Body (records ! k)) = Inl err"
    using assms(2) by (simp add: Unmarshal_def)
  have "downstream_of e \<noteq> Some k" if e: "e \<in> set (fst (HandleRequest w records))" for e
  proof (cases "env_Parse w")
    case (Inl a)
    with e show ?thesis by (auto simp: fst_HandleRequest_env_error)
  next
    case (Inr cfg)
    show ?thesis
    proof
      assume d: "downstream_of e = Some k"
      from e Inr have "e \<in> set (fst (handleRecords w cfg (dialerOf cfg) 0 records))"
        by (simp add: fst_HandleRequest_ok)
      with downstream_record_of[OF d]
      have "e \<in> set (fst (handleRecord w cfg (dialerOf cfg) k (records ! k)))"
        using handleRecords_record_of by blast
      with u d show False by (auto simp: handleRecord_decode_error)
    qed
  qed
  with u show ?thesis by blast
qed

theorem invalid_body_short_circuits_witness:
  "1 < length batchTruncatedSecond \<and>
   json_parse testWorld (Body (batchTruncatedSecond ! 1))
     = Inl (ErrorString ''unexpected end of JSON input'') \<and>
   Unmarshal testWorld (Body (batchTruncatedSecond ! 1))
     = Inl (ErrorString ''unexpected end of JSON input'') \<and>
   CallGetTemplateContent 1 ''.html.template''
     \<notin> set (fst (HandleRequest testWorld batchTruncatedSecond))"
proof -
  have h1: "1 < length batchTruncatedSecond" by (simp add: batchTruncatedSecond_def)
  have h2: "json_parse testWorld (Body (batchTruncatedSecond ! 1))
     = Inl (ErrorString ''unexpected end of JSON input'')"
    by (simp add: ex_defs)
  note t = invalid_body_short_circuits[OF h1 h2]
  have "CallGetTemplateContent 1 ''.html.template''
          \<notin> set (fst (HandleRequest testWorld batchTruncatedSecond))"
  proof
    assume "CallGetTemplateContent 1 ''.html.template''
              \<in> set (fst (HandleRequest testWorld batchTruncatedSecond))"
    with t have "downstream_of (CallGetTemplateContent 1 ''.html.template'') \<noteq> Some 1"
      by blast
    then show False by simp
  qed
  with t h1 h2 show ?thesis by blast
qed

subsection \<open>C3: To, Subject and Reply-To come from the request's fields\<close>




subsection \<open>C4: HTML mode escapes, text mode does not\<close>



subsection \<open>C5: a template that does not parse\<close>

text \<open>
  Claim C5 says that a syntactically invalid template source makes rendering fail with a
  template-parse error that is surfaced. main.go drops the error of \<^verbatim>\<open>Parse\<close> (lines 46
  and 47) and calls \<^verbatim>\<open>Execute\<close> on the nil template. For every record whose HTML
  template does not parse, the run goes on to fetch and parse the text template, panics
  in the first \<^verbatim>\<open>Execute\<close>, and writes nothing to standard error: the parse error is
  never reported.
\<close>

theorem unparsable_template_panics_unreported:
  assumes "Unmarshal w (Body r) = Inr m"
    and "GetTemplateContent w (Bucket cfg) i (Template m @ ''.html.template'') = Some htmlSrc"
    and "hParse w htmlSrc = Inl err"
    and "GetTemplateContent w (Bucket cfg) i (Template m @ ''.txt.template'') = Some txtSrc"
  shows "handleRecord w cfg d i r =
           ([CallUnmarshal i (Body r),
             CallGetTemplateContent i (Template m @ ''.html.template''), CallParse i HTML,
             CallGetTemplateContent i (Template m @ ''.txt.template''), CallParse i TXT,
             CallExecute i HTML],
            Inl Panicked)"
  using assms
  by (simp add: handleRecord_def decode_eq buildMailContent_def fetch_def parseHTML_def
        parseTXT_def executeHTML_def andThen_def call_def)

text \<open>The record below names a template whose HTML source has an unclosed action.\<close>

theorem unparsable_template_panics_unreported_witness:
  "Unmarshal testWorld (Body \<lparr>Body = bodyUnclosed\<rparr>)
     = Inr (zero_mailMessage\<lparr>ToAddress := ''ann@example.org'', Template := ''unclosed''\<rparr>) \<and>
   GetTemplateContent testWorld (Bucket testConfig) 0 ''unclosed.html.template''
     = Some ''<p>Hello {{.name'' \<and>
   hParse testWorld ''<p>Hello {{.name'' = Inl (ErrorString ''unclosed action'') \<and>
   GetTemplateContent testWorld (Bucket testConfig) 0 ''unclosed.txt.template'' = Some ''Hello'' \<and>
   handleRecord testWorld testConfig (dialerOf testConfig) 0 \<lparr>Body = bodyUnclosed\<rparr> =
     ([CallUnmarshal 0 bodyUnclosed,
       CallGetTemplateContent 0 ''unclosed.html.template'', CallParse 0 HTML,
       CallGetTemplateContent 0 ''unclosed.txt.template'', CallParse 0 TXT,
       CallExecute 0 HTML],
      Inl Panicked) \<and>
   HandleRequest testWorld [\<lparr>Body = bodyUnclosed\<rparr>] =
     ([CallUnmarshal 0 bodyUnclosed,
       CallGetTemplateContent 0 ''unclosed.html.template'', CallParse 0 HTML,
       CallGetTemplateContent 0 ''unclosed.txt.template'', CallParse 0 TXT,
       CallExecute 0 HTML],
      Panicked)"
proof -
  let ?m = "zero_mailMessage\<lparr>ToAddress := ''ann@example.org'', Template := ''unclosed''\<rparr>"
  have h1: "Unmarshal testWorld (Body \<lparr>Body = bodyUnclosed\<rparr>) = Inr ?m"
    by (simp add: ex_defs)
  have t: "Template ?m = ''unclosed''" by simp
  have h2: "GetTemplateContent testWorld (Bucket testConfig) 0 (Template ?m @ ''.html.template'')
          = Some ''<p>Hello {{.name''"
    and h3: "hParse testWorld ''<p>Hello {{.name'' = Inl (ErrorString ''unclosed action'')"
    and h4: "GetTemplateContent testWorld (Bucket testConfig) 0 (Template ?m @ ''.txt.template'')
          = Some ''Hello''"
    by (simp_all add: ex_defs)
  note r = unparsable_template_panics_unreported[OF h1 h2 h3 h4, of "dialerOf testConfig"]
  have run: "HandleRequest testWorld [\<lparr>Body = bodyUnclosed\<rparr>] =
     ([CallUnmarshal 0 bodyUnclosed,
       CallGetTemplateContent 0 ''unclosed.html.template'', CallParse 0 HTML,
       CallGetTemplateContent 0 ''unclosed.txt.template'', CallParse 0 TXT,
       CallExecute 0 HTML],
      Panicked)"
    by (simp add: run_defs)
  from r h1 h2 h3 h4 run show ?thesis by (simp add: t)
qed

subsection \<open>C6: a field the context does not have\<close>




subsection \<open>C7: what reaches the steps after decoding\<close>

text \<open>
  Claim C7 says that every request passed on from decoding has a non-empty
  \<open>from_address\<close>, \<open>to_address\<close> and \<open>reply_to\<close>. The body \<^verbatim>\<open>{}\<close> decodes to the zero
  request, whose three addresses are empty, and that request is rendered and dispatched.
\<close>

theorem empty_addresses_reach_dispatch:
  "Unmarshal testWorld bodyEmpty = Inr zero_mailMessage \<and>
   FromAddress zero_mailMessage = [] \<and> ToAddress zero_mailMessage = [] \<and>
   ReplyToAddress zero_mailMessage = [] \<and>
   HandleRequest testWorld [\<lparr>Body = bodyEmpty\<rparr>] =
     ([CallUnmarshal 0 bodyEmpty,
       CallGetTemplateContent 0 ''.html.template'', CallParse 0 HTML,
       CallGetTemplateContent 0 ''.txt.template'', CallParse 0 TXT,
       CallExecute 0 HTML, CallExecute 0 TXT,
       CallDialAndSend 0 (assemble testWorld zero_mailMessage ''<p>Hello</p>'' ''Hello'')],
      Returned None) \<and>
   header (assemble testWorld zero_mailMessage ''<p>Hello</p>'' ''Hello'') ''To'' = Some [[]]"
  by (simp add: run_defs msg_defs)

text \<open>
  Claim C7, amended. A request is decoded as a whole or not at all: every template fetch,
  parse, render or dispatch call made for record \<open>k\<close> follows a \<^verbatim>\<open>json.Unmarshal\<close> of that
  record's body that reported no error, and a dispatched message is assembled from the
  request so decoded. The addresses of such a request are not checked and may be empty:
  the empty object decodes to the request with every field empty.
\<close>

theorem downstream_request_is_decoded:
  assumes "e \<in> set (fst (HandleRequest w records))" and "downstream_of e = Some k"
  shows "k < length records \<and>
         (\<exists>m. Unmarshal w (Body (records ! k)) = Inr m \<and>
              (\<forall>mail. e = CallDialAndSend k mail \<longrightarrow>
                 (\<exists>htmlBody txtBody. mail = assemble w m htmlBody txtBody))) \<and>
         (json_parse w body = Inr (JObject []) \<longrightarrow>
            (\<exists>m. Unmarshal w body = Inr m \<and> FromAddress m = [] \<and> ToAddress m = [] \<and>
                 ReplyToAddress m = []))"
proof (cases "env_Parse w")
  case (Inl err)
  with assms show ?thesis by (auto simp: fst_HandleRequest_env_error)
next
  case (Inr cfg)
  with assms(1) have "e \<in> set (fst (handleRecords w cfg (dialerOf cfg) 0 records))"
    by (simp add: fst_HandleRequest_ok)
  with downstream_record_of[OF assms(2)]
  have k: "k < length records"
    and e: "e \<in> set (fst (handleRecord w cfg (dialerOf cfg) k (records ! k)))"
    using handleRecords_record_of by blast+
  from downstream_needs_decode[OF e assms(2)] obtain m where
    m: "Unmarshal w (Body (records ! k)) = Inr m" by blast
  have "\<exists>hb tb. mail = assemble w m hb tb" if "e = CallDialAndSend k mail" for mail
    using dispatched_from_decoded[of k mail w cfg "dialerOf cfg" k "records ! k"] e that m
    by auto
  moreover have "json_parse w body = Inr (JObject []) \<longrightarrow>
            (\<exists>m. Unmarshal w body = Inr m \<and> FromAddress m = [] \<and> ToAddress m = [] \<and>
                 ReplyToAddress m = [])"
    by (simp add: Unmarshal_def fresh_def zero_mailMessage_def)
  ultimately show ?thesis using k m by blast
qed

theorem downstream_request_is_decoded_witness:
  "CallDialAndSend 0
       (assemble testWorld requestWelcome ''<p>Hello &lt;b&gt;Ann&lt;/b&gt; &amp; co</p>''
          ''Hello <b>Ann</b> & co'')
     \<in> set (fst (HandleRequest testWorld batchAllGood)) \<and>
   downstream_of (CallDialAndSend 0
       (assemble testWorld requestWelcome ''<p>Hello &lt;b&gt;Ann&lt;/b&gt; &amp; co</p>''
          ''Hello <b>Ann</b> & co'')) = Some 0 \<and>
   json_parse testWorld bodyEmpty = Inr (JObject []) \<and>
   0 < length batchAllGood \<and>
   (\<exists>m. Unmarshal testWorld (Body (batchAllGood ! 0)) = Inr m) \<and>
   (\<exists>m. Unmarshal testWorld bodyEmpty = Inr m \<and> FromAddress m = [] \<and> ToAddress m = [] \<and>
        ReplyToAddress m = [])"
proof -
  let ?e = "CallDialAndSend 0
       (assemble testWorld requestWelcome ''<p>Hello &lt;b&gt;Ann&lt;/b&gt; &amp; co</p>''
          ''Hello <b>Ann</b> & co'')"
  have h1: "?e \<in> set (fst (HandleRequest testWorld batchAllGood))"
    by (simp add: ex_defs)
  have h2: "downstream_of ?e = Some 0" by simp
  have h3: "json_parse testWorld bodyEmpty = Inr (JObject [])"
    by (simp add: ex_defs)
  from downstream_request_is_decoded[OF h1 h2, of bodyEmpty] h1 h2 h3 show ?thesis by blast
qed

subsection \<open>C8: formatting the Cc and Bcc addresses\<close>

text \<open>
  Claim C8. Formatting a sequence of addresses, as main.go does for Cc and Bcc, gives a
  sequence of the same length whose element at each index is the formatted form of the
  input's element at that index; the empty sequence gives the empty sequence. The Cc and
  Bcc headers of the assembled message hold these sequences, element by element, as the
  message's header encoder stores them.
\<close>

theorem formatAll_keeps_order_and_length:
  "formatAll w xs = map (\<lambda>a. FormatAddress w a []) xs \<and>
   length (formatAll w xs) = length xs \<and>
   (\<forall>i < length xs. formatAll w xs ! i = FormatAddress w (xs ! i) []) \<and>
   formatAll w [] = [] \<and>
   header (assemble w m htmlBody txtBody) ''Cc''
     = Some (map (encodeHeader w) (formatAll w (CC m))) \<and>
   header (assemble w m htmlBody txtBody) ''Bcc''
     = Some (map (encodeHeader w) (formatAll w (BCC m)))"
proof -
  have loop: "formatAll w ys = map (\<lambda>a. FormatAddress w a []) ys" for ys
    unfolding formatAll_def
    using formatAll_fold[of "length ys" ys "\<lambda>a. FormatAddress w a []" "[]"] by simp
  have len: "length (formatAll w xs) = length xs"
    by (simp add: loop)
  have nth: "\<forall>i < length xs. formatAll w xs ! i = FormatAddress w (xs ! i) []"
    by (simp add: loop)
  have nil: "formatAll w [] = []"
    by (simp add: loop)
  have cc: "header (assemble w m htmlBody txtBody) ''Cc''
              = Some (map (encodeHeader w) (formatAll w (CC m)))"
    and bcc: "header (assemble w m htmlBody txtBody) ''Bcc''
              = Some (map (encodeHeader w) (formatAll w (BCC m)))"
    by (simp_all add: msg_defs)
  from loop[of xs] len nth nil cc bcc show ?thesis by blast
qed

theorem formatAll_keeps_order_and_length_witness:
  "(1::nat) < length [''bob@example.org'', ''eve@example.org''] \<and>
   formatAll testWorld [''bob@example.org'', ''eve@example.org''] ! 1 = ''eve@example.org'' \<and>
   formatAll testWorld [''bob@example.org'', ''eve@example.org'']
     = [''bob@example.org'', ''eve@example.org'']"
  using formatAll_keeps_order_and_length[of testWorld "[''bob@example.org'', ''eve@example.org'']"]
  by (simp add: testWorld_def)

subsection \<open>C9: the handler's return value\<close>

text \<open>
  Claim C9. The handler never returns a non-nil error. It returns nil exactly when the
  configuration parses and every record goes through all its steps; any other run ends
  without returning, by \<^verbatim>\<open>os.Exit(1)\<close>, by a panic or inside the storage connector.
\<close>

theorem handler_returns_nil_or_aborts:
  "(\<forall>e. snd (HandleRequest w records) \<noteq> Returned (Some e)) \<and>
   (snd (HandleRequest w records) = Returned None \<longleftrightarrow>
      (\<exists>cfg. env_Parse w = Inr cfg \<and>
         (\<forall>k < length records. stepsSucceed w cfg (dialerOf cfg) k (records ! k)))) \<and>
   (snd (HandleRequest w records) \<noteq> Returned None \<longrightarrow>
      snd (HandleRequest w records) \<in> {Exited 1, Panicked, StorageFailed})"
proof (cases "env_Parse w")
  case (Inl err)
  then show ?thesis by (simp add: HandleRequest_def exitErrorf_def call_def)
next
  case (Inr cfg)
  let ?r = "handleRecords w cfg (dialerOf cfg) 0 records"
  show ?thesis
  proof (cases "snd ?r")
    case (Inl out)
    then have "abnormal out" by (rule abn_handleRecords)
    moreover have "snd (HandleRequest w records) = out"
      using Inr Inl by (cases ?r) (simp add: HandleRequest_ok)
    moreover have "\<not> (\<forall>k < length records. stepsSucceed w cfg (dialerOf cfg) k (records ! k))"
      using handleRecords_Inr_iff[of w cfg "dialerOf cfg" 0 records] Inl by simp
    ultimately show ?thesis using Inr by (auto simp: abnormal_def)
  next
    case (Inr u)
    then have "snd (HandleRequest w records) = Returned None"
      using \<open>env_Parse w = Inr cfg\<close> by (cases ?r) (simp add: HandleRequest_ok)
    moreover have "\<forall>k < length records. stepsSucceed w cfg (dialerOf cfg) k (records ! k)"
      using handleRecords_Inr_iff[of w cfg "dialerOf cfg" 0 records] Inr by simp
    ultimately show ?thesis using \<open>env_Parse w = Inr cfg\<close> by simp
  qed
qed

theorem handler_returns_nil_or_aborts_witness:
  "snd (HandleRequest testWorld batchTruncatedSecond) \<noteq> Returned None \<and>
   snd (HandleRequest testWorld batchTruncatedSecond) \<in> {Exited 1, Panicked, StorageFailed} \<and>
   env_Parse testWorld = Inr testConfig \<and>
   stepsSucceed testWorld testConfig (dialerOf testConfig) 0 (batchAllGood ! 0) \<and>
   stepsSucceed testWorld testConfig (dialerOf testConfig) 1 (batchAllGood ! 1) \<and>
   length batchAllGood = 2 \<and>
   snd (HandleRequest testWorld batchAllGood) = Returned None"
proof -
  have h1: "snd (HandleRequest testWorld batchTruncatedSecond) \<noteq> Returned None"
    by (simp add: ex_defs)
  have h2: "env_Parse testWorld = Inr testConfig" by (simp add: testWorld_def)
  have s0: "stepsSucceed testWorld testConfig (dialerOf testConfig) 0 (batchAllGood ! 0)"
    and s1: "stepsSucceed testWorld testConfig (dialerOf testConfig) 1 (batchAllGood ! 1)"
    and len: "length batchAllGood = 2"
    by (simp_all add: ex_defs)
  have h3: "\<forall>k < length batchAllGood.
      stepsSucceed testWorld testConfig (dialerOf testConfig) k (batchAllGood ! k)"
    using s0 s1 len by (simp add: less_Suc_eq_0_disj numeral_2_eq_2)
  from handler_returns_nil_or_aborts[of testWorld batchTruncatedSecond] h1
  have "snd (HandleRequest testWorld batchTruncatedSecond) \<in> {Exited 1, Panicked, StorageFailed}"
    by blast
  moreover from handler_returns_nil_or_aborts[of testWorld batchAllGood] h2 h3
  have "snd (HandleRequest testWorld batchAllGood) = Returned None" by blast
  ultimately show ?thesis using h1 h2 s0 s1 len by blast
qed

subsection \<open>C10: a JSON object without the request's members\<close>

text \<open>
  Claim C10. A body that is a JSON object none of whose members matches a field of the
  request decodes without error to the request whose strings are empty, whose cc and bcc
  are empty and whose template context is empty. The handler goes on with it: it fetches
  the template named \<^verbatim>\<open>.html.template\<close>, and when both templates are fetched, parse and
  execute, it hands the assembled message to the transport.
\<close>

theorem absent_fields_decode_to_zero_request:
  assumes "json_parse w body = Inr (JObject kvs)"
    and "\<forall>(k, v) \<in> set kvs. find_field (equalFold w) k = None"
  shows "Unmarshal w body = Inr zero_mailMessage \<and>
         take 2 (fst (handleRecord w cfg d i \<lparr>Body = body\<rparr>)) =
           [CallUnmarshal i body, CallGetTemplateContent i ''.html.template''] \<and>
         (\<forall>htmlSrc htmlTmpl txtSrc txtTmpl htmlBody txtBody.
            GetTemplateContent w (Bucket cfg) i ''.html.template'' = Some htmlSrc \<and>
            hParse w htmlSrc = Inr htmlTmpl \<and>
            GetTemplateContent w (Bucket cfg) i ''.txt.template'' = Some txtSrc \<and>
            tParse w txtSrc = Inr txtTmpl \<and>
            hExecute w htmlTmpl Map.empty = Inr htmlBody \<and>
            tExecute w txtTmpl Map.empty = Inr txtBody \<longrightarrow>
            take 8 (fst (handleRecord w cfg d i \<lparr>Body = body\<rparr>)) =
              [CallUnmarshal i body,
               CallGetTemplateContent i ''.html.template'', CallParse i HTML,
               CallGetTemplateContent i ''.txt.template'', CallParse i TXT,
               CallExecute i HTML, CallExecute i TXT,
               CallDialAndSend i (assemble w zero_mailMessage htmlBody txtBody)])"
proof -
  have u: "Unmarshal w body = Inr zero_mailMessage"
    using assms by (simp add: Unmarshal_def members_skip fresh_def)
  have z: "Template zero_mailMessage = []" "TemplateContext zero_mailMessage = Map.empty"
    by (simp_all add: zero_mailMessage_def)
  have two: "take 2 (fst (handleRecord w cfg d i \<lparr>Body = body\<rparr>)) =
           [CallUnmarshal i body, CallGetTemplateContent i ''.html.template'']"
    using u z
    by (simp add: handleRecord_def decode_eq buildMailContent_def fetch_def andThen_def call_def
        split: prod.splits sum.splits option.splits)
  have eight: "take 8 (fst (handleRecord w cfg d i \<lparr>Body = body\<rparr>)) =
              [CallUnmarshal i body,
               CallGetTemplateContent i ''.html.template'', CallParse i HTML,
               CallGetTemplateContent i ''.txt.template'', CallParse i TXT,
               CallExecute i HTML, CallExecute i TXT,
               CallDialAndSend i (assemble w zero_mailMessage htmlBody txtBody)]"
    if "GetTemplateContent w (Bucket cfg) i ''.html.template'' = Some htmlSrc"
      "hParse w htmlSrc = Inr htmlTmpl"
      "GetTemplateContent w (Bucket cfg) i ''.txt.template'' = Some txtSrc"
      "tParse w txtSrc = Inr txtTmpl"
      "hExecute w htmlTmpl Map.empty = Inr htmlBody"
      "tExecute w txtTmpl Map.empty = Inr txtBody"
    for htmlSrc htmlTmpl txtSrc txtTmpl htmlBody txtBody
    using u z that
    by (simp add: handleRecord_def decode_eq buildMailContent_def fetch_def parseHTML_def
          parseTXT_def executeHTML_def executeTXT_def dispatch_def exitErrorf_def
          andThen_def call_def ret_def split: option.splits)
  from u two eight show ?thesis by blast
qed

theorem absent_fields_decode_to_zero_request_witness:
  "json_parse testWorld bodyUnknownMember = Inr (JObject [(''priority'', JString ''high'')]) \<and>
   find_field (equalFold testWorld) ''priority'' = None \<and>
   GetTemplateContent testWorld (Bucket testConfig) 0 ''.html.template'' = Some ''<p>Hello</p>'' \<and>
   hParse testWorld ''<p>Hello</p>'' = Inr [TextNode ''<p>Hello</p>''] \<and>
   GetTemplateContent testWorld (Bucket testConfig) 0 ''.txt.template'' = Some ''Hello'' \<and>
   tParse testWorld ''Hello'' = Inr [TextNode ''Hello''] \<and>
   hExecute testWorld [TextNode ''<p>Hello</p>''] Map.empty = Inr ''<p>Hello</p>'' \<and>
   tExecute testWorld [TextNode ''Hello''] Map.empty = Inr ''Hello'' \<and>
   Unmarshal testWorld bodyUnknownMember = Inr zero_mailMessage \<and>
   take 8 (fst (handleRecord testWorld testConfig (dialerOf testConfig) 0
                  \<lparr>Body = bodyUnknownMember\<rparr>)) =
     [CallUnmarshal 0 bodyUnknownMember,
      CallGetTemplateContent 0 ''.html.template'', CallParse 0 HTML,
      CallGetTemplateContent 0 ''.txt.template'', CallParse 0 TXT,
      CallExecute 0 HTML, CallExecute 0 TXT,
      CallDialAndSend 0 (assemble testWorld zero_mailMessage ''<p>Hello</p>'' ''Hello'')]"
proof -
  have h1: "json_parse testWorld bodyUnknownMember
          = Inr (JObject [(''priority'', JString ''high'')])"
    by (simp add: ex_defs)
  have h2': "find_field (equalFold testWorld) ''priority'' = None"
    by (simp add: ex_defs)
  then have h2: "\<forall>(k, v) \<in> set [(''priority'', JString ''high'')].
              find_field (equalFold testWorld) k = None"
    by simp
  have h3: "GetTemplateContent testWorld (Bucket testConfig) 0 ''.html.template''
          = Some ''<p>Hello</p>''"
    and h4: "hParse testWorld ''<p>Hello</p>'' = Inr [TextNode ''<p>Hello</p>'']"
    and h5: "GetTemplateContent testWorld (Bucket testConfig) 0 ''.txt.template'' = Some ''Hello''"
    and h6: "tParse testWorld ''Hello'' = Inr [TextNode ''Hello'']"
    and h7: "hExecute testWorld [TextNode ''<p>Hello</p>''] Map.empty = Inr ''<p>Hello</p>''"
    and h8: "tExecute testWorld [TextNode ''Hello''] Map.empty = Inr ''Hello''"
    by (simp_all add: ex_defs)
  from absent_fields_decode_to_zero_request[OF h1 h2, of testConfig "dialerOf testConfig" 0]
    h1 h2' h3 h4 h5 h6 h7 h8
  show ?thesis by blast
qed

end
